theory Spec2Isabelle
  imports Complex_Main "HOL-Library.AList"
begin

section \<open>Python values and exceptions\<close>

text \<open>
  The JSON bodies of the geolocation providers are untyped Python values: trees, since the
  program only reads them.  A mapping is an association list in insertion order, as a
  Python \<^verbatim>\<open>dict\<close> is; keys are strings.

  A Python float is the real number it denotes (a finite double); comparisons are exact.
  The special values (NaN, infinities) and the sign of zero are not modelled.  What an
  arithmetic operation or a library function returns is rounded, and is given by the
  arithmetic of the run (section on float arithmetic below).
\<close>

datatype pyval =
    PNone
  | PBool bool
  | PInt int
  | PFloat real
  | PStr string
  | PList "pyval list"
  | PDict "(string \<times> pyval) list"

datatype py_error =
    AttributeError
  | TypeError
  | ValueError
  | KeyError
  | OverflowError
  | RequestException
  | JSONDecodeError
  | IOError

text \<open>Sequencing of a computation that may raise.\<close>

definition bind_err :: "py_error + 'a \<Rightarrow> ('a \<Rightarrow> py_error + 'b) \<Rightarrow> py_error + 'b" where
  "bind_err m f = (case m of Inl e \<Rightarrow> Inl e | Inr x \<Rightarrow> f x)"

text \<open>\<^verbatim>\<open>v.get(key, default)\<close> and \<^verbatim>\<open>v.get(key)\<close>: only a dict has the method.\<close>

fun py_get_default :: "pyval \<Rightarrow> string \<Rightarrow> pyval \<Rightarrow> py_error + pyval" where
  "py_get_default (PDict kvs) k d = Inr (case map_of kvs k of None \<Rightarrow> d | Some v \<Rightarrow> v)"
| "py_get_default _ k d = Inl AttributeError"

definition py_get :: "pyval \<Rightarrow> string \<Rightarrow> py_error + pyval" where
  "py_get v k = py_get_default v k PNone"

text \<open>\<^verbatim>\<open>v[key]\<close> with a string key: a missing key of a dict is a KeyError, a string key
  on a list or a string and a subscript on anything else is a TypeError.\<close>

fun py_item :: "pyval \<Rightarrow> string \<Rightarrow> py_error + pyval" where
  "py_item (PDict kvs) k = (case map_of kvs k of None \<Rightarrow> Inl KeyError | Some v \<Rightarrow> Inr v)"
| "py_item _ k = Inl TypeError"

fun str_prefix :: "string \<Rightarrow> string \<Rightarrow> bool" where
  "str_prefix [] ys = True"
| "str_prefix (x # xs) [] = False"
| "str_prefix (x # xs) (y # ys) = (x = y \<and> str_prefix xs ys)"

fun str_contains :: "string \<Rightarrow> string \<Rightarrow> bool" where
  "str_contains xs [] = (xs = [])"
| "str_contains xs (y # ys) = (str_prefix xs (y # ys) \<or> str_contains xs ys)"

text \<open>\<^verbatim>\<open>key in v\<close> with a string key: a key of a dict, an element of a list, a substring
  of a string; anything else is not iterable.\<close>

fun py_in :: "string \<Rightarrow> pyval \<Rightarrow> py_error + bool" where
  "py_in k (PDict kvs) = Inr (k \<in> fst ` set kvs)"
| "py_in k (PList xs) = Inr (PStr k \<in> set xs)"
| "py_in k (PStr s) = Inr (str_contains k s)"
| "py_in k _ = Inl TypeError"

text \<open>\<^verbatim>\<open>float(v)\<close>.  The parser of Python's float literals is a builtin, taken as the
  parameter \<open>pf\<close> (\<open>None\<close> where \<^verbatim>\<open>float\<close> raises ValueError); strings that denote
  NaN or an infinity are outside the model.  An integer that rounds to \<open>2 ^ 1024\<close> or
  beyond raises OverflowError.  An integer beyond \<open>2 ^ 53\<close> is rounded by the code and
  kept exact here: either value is far outside the coordinate ranges it is compared with.\<close>

fun py_float :: "(string \<Rightarrow> real option) \<Rightarrow> pyval \<Rightarrow> py_error + real" where
  "py_float pf (PInt i) =
     (if \<bar>i\<bar> < 2 ^ 1024 - 2 ^ 970 then Inr (real_of_int i) else Inl OverflowError)"
| "py_float pf (PFloat r) = Inr r"
| "py_float pf (PBool b) = Inr (if b then 1 else 0)"
| "py_float pf (PStr s) = (case pf s of None \<Rightarrow> Inl ValueError | Some r \<Rightarrow> Inr r)"
| "py_float pf _ = Inl TypeError"

text \<open>\<^verbatim>\<open>s.split(c)\<close> for a one-character separator.\<close>

fun split_on :: "char \<Rightarrow> string \<Rightarrow> string list" where
  "split_on c [] = [[]]"
| "split_on c (x # xs) =
     (if x = c then [] # split_on c xs
      else (case split_on c xs of [] \<Rightarrow> [[x]] | w # ws \<Rightarrow> (x # w) # ws))"

section \<open>geolocation.py: LocationDetector\<close>

text \<open>The location dict a source returns.  The key \<^verbatim>\<open>method\<close> is the field
  \<open>detection_method\<close>; the \<^verbatim>\<open>description\<close> text is presentation only (built with
  \<^verbatim>\<open>dict.get\<close> and string formatting, which do not raise on a dict) and is left
  out.\<close>

record location =
  latitude :: real
  longitude :: real
  detection_method :: string
  accuracy :: string

text \<open>\<^verbatim>\<open>LocationDetector._validate_coordinates\<close>\<close>

definition validate_coordinates :: "real \<Rightarrow> real \<Rightarrow> bool" where
  "validate_coordinates lat lon =
     (if \<not> (- 90 \<le> lat \<and> lat \<le> 90 \<and> - 180 \<le> lon \<and> lon \<le> 180) then False
      else if lat = 0 \<and> lon = 0 then False
      else True)"

text \<open>\<^verbatim>\<open>LocationDetector._parse_ipapi_co\<close>\<close>

definition parse_ipapi_co :: "(string \<Rightarrow> real option) \<Rightarrow> pyval \<Rightarrow> py_error + location option" where
  "parse_ipapi_co pf data =
     bind_err (py_in ''error'' data) (\<lambda>err.
       if err then Inr None
       else bind_err (bind_err (py_item data ''latitude'') (py_float pf)) (\<lambda>lat.
            bind_err (bind_err (py_item data ''longitude'') (py_float pf)) (\<lambda>lon.
              Inr (Some \<lparr>latitude = lat, longitude = lon, detection_method = ''ipapi.co'',
                         accuracy = ''city-level (~10-50km)''\<rparr>))))"

text \<open>\<^verbatim>\<open>LocationDetector._parse_ip_api_com\<close>\<close>

definition parse_ip_api_com :: "(string \<Rightarrow> real option) \<Rightarrow> pyval \<Rightarrow> py_error + location option" where
  "parse_ip_api_com pf data =
     bind_err (py_get data ''status'') (\<lambda>status.
       if status \<noteq> PStr ''success'' then Inr None
       else bind_err (bind_err (py_item data ''lat'') (py_float pf)) (\<lambda>lat.
            bind_err (bind_err (py_item data ''lon'') (py_float pf)) (\<lambda>lon.
              Inr (Some \<lparr>latitude = lat, longitude = lon, detection_method = ''ip-api.com'',
                         accuracy = ''city-level (~10-50km)''\<rparr>))))"

text \<open>\<^verbatim>\<open>LocationDetector._parse_ipinfo_io\<close>: \<^verbatim>\<open>lat, lon = data['loc'].split(',')\<close>
  needs a string (only a string has \<^verbatim>\<open>split\<close>) of exactly two parts.\<close>

definition parse_ipinfo_io :: "(string \<Rightarrow> real option) \<Rightarrow> pyval \<Rightarrow> py_error + location option" where
  "parse_ipinfo_io pf data =
     bind_err (py_in ''loc'' data) (\<lambda>has_loc.
       if \<not> has_loc then Inr None
       else bind_err (py_item data ''loc'') (\<lambda>loc.
         (case loc of
            PStr s \<Rightarrow>
              (case split_on CHR '','' s of
                 [lat, lon] \<Rightarrow>
                   bind_err (py_float pf (PStr lat)) (\<lambda>la.
                   bind_err (py_float pf (PStr lon)) (\<lambda>lo.
                     Inr (Some \<lparr>latitude = la, longitude = lo, detection_method = ''ipinfo.io'',
                                accuracy = ''city-level (~10-50km)''\<rparr>)))
               | _ \<Rightarrow> Inl ValueError)
          | _ \<Rightarrow> Inl AttributeError)))"

text \<open>What one request gives: \<^verbatim>\<open>session.get\<close>, \<^verbatim>\<open>raise_for_status\<close> or
  \<^verbatim>\<open>response.json()\<close> raises, or the body is decoded.\<close>

datatype http_outcome = Raised py_error | Body pyval

text \<open>The \<^verbatim>\<open>except\<close> clause of the provider loop:
  \<^verbatim>\<open>(requests.exceptions.RequestException, json.JSONDecodeError, KeyError)\<close>.\<close>

definition ip_caught :: "py_error \<Rightarrow> bool" where
  "ip_caught e = (e = RequestException \<or> e = JSONDecodeError \<or> e = KeyError)"

type_synonym parser = "(string \<Rightarrow> real option) \<Rightarrow> pyval \<Rightarrow> py_error + location option"

definition apis :: "(string \<times> parser) list" where
  "apis = [(''https://ipapi.co/json/'', parse_ipapi_co),
           (''http://ip-api.com/json/'', parse_ip_api_com),
           (''https://ipinfo.io/json'', parse_ipinfo_io)]"

text \<open>The body of the \<^verbatim>\<open>try\<close> for one provider.\<close>

definition try_api ::
  "(string \<Rightarrow> real option) \<Rightarrow> (string \<Rightarrow> http_outcome) \<Rightarrow> string \<times> parser \<Rightarrow> py_error + location option" where
  "try_api pf http api =
     (case http (fst api) of
        Raised e \<Rightarrow> Inl e
      | Body data \<Rightarrow>
          bind_err (snd api pf data) (\<lambda>loc.
            (case loc of
               None \<Rightarrow> Inr None
             | Some l \<Rightarrow> if validate_coordinates (latitude l) (longitude l) then Inr (Some l)
                         else Inr None)))"

fun try_apis ::
  "(string \<Rightarrow> real option) \<Rightarrow> (string \<Rightarrow> http_outcome) \<Rightarrow> (string \<times> parser) list \<Rightarrow> py_error + location option" where
  "try_apis pf http [] = Inr None"
| "try_apis pf http (api # rest) =
     (case try_api pf http api of
        Inl e \<Rightarrow> if ip_caught e then try_apis pf http rest else Inl e
      | Inr (Some l) \<Rightarrow> Inr (Some l)
      | Inr None \<Rightarrow> try_apis pf http rest)"

text \<open>\<^verbatim>\<open>LocationDetector._try_ip_geolocation\<close>\<close>

definition try_ip_geolocation ::
  "(string \<Rightarrow> real option) \<Rightarrow> (string \<Rightarrow> http_outcome) \<Rightarrow> py_error + location option" where
  "try_ip_geolocation pf http = try_apis pf http apis"

text \<open>\<^verbatim>\<open>LocationDetector.detect_location\<close>.  The GPS and the manual-configuration
  sources read hardware and files; what each attempt gives (a location, None, or an
  exception it lets through) is a field of the environment.  The second component lists
  the sources that were invoked, in order.\<close>

record detector_env =
  float_parser :: "string \<Rightarrow> real option"
  http :: "string \<Rightarrow> http_outcome"
  gps_hardware :: "py_error + location option"
  manual_config :: "py_error + location option"

datatype source = IPGeolocation | GPSHardware | ManualConfig

definition detect_location :: "detector_env \<Rightarrow> (py_error + location option) \<times> source list" where
  "detect_location de =
     (case try_ip_geolocation (float_parser de) (http de) of
        Inl e \<Rightarrow> (Inl e, [IPGeolocation])
      | Inr (Some l) \<Rightarrow> (Inr (Some l), [IPGeolocation])
      | Inr None \<Rightarrow>
          (case gps_hardware de of
             Inl e \<Rightarrow> (Inl e, [IPGeolocation, GPSHardware])
           | Inr (Some l) \<Rightarrow> (Inr (Some l), [IPGeolocation, GPSHardware])
           | Inr None \<Rightarrow>
               (case manual_config de of
                  Inl e \<Rightarrow> (Inl e, [IPGeolocation, GPSHardware, ManualConfig])
                | Inr (Some l) \<Rightarrow> (Inr (Some l), [IPGeolocation, GPSHardware, ManualConfig])
                | Inr None \<Rightarrow> (Inr None, [IPGeolocation, GPSHardware, ManualConfig]))))"

section \<open>Float arithmetic\<close>

text \<open>
  The arithmetic of a run.  \<open>rnd\<close> is the rounding of the exact result of \<^verbatim>\<open>+\<close>,
  \<^verbatim>\<open>-\<close>, \<^verbatim>\<open>*\<close>, \<^verbatim>\<open>/\<close> and \<^verbatim>\<open>math.sqrt\<close> to a double; \<open>lib_sin\<close>,
  \<open>lib_cos\<close>, \<open>lib_atan2\<close> and \<open>lib_pow2\<close> are what the C library returns for
  \<^verbatim>\<open>math.sin\<close>, \<^verbatim>\<open>math.cos\<close>, \<^verbatim>\<open>math.atan2\<close> and \<^verbatim>\<open>x**2\<close>;
  \<open>deg_to_rad\<close> is the constant \<^verbatim>\<open>pi/180\<close> of \<^verbatim>\<open>math.radians\<close>.  They are
  parameters: nothing is assumed of them, so a statement about every arithmetic holds for
  binary64 with any C library.

  What every such arithmetic does is written out: a result that is exactly 0 or 1 is
  returned as it is (both are doubles), and the library functions have the exact values
  the C standard fixes at \<open>sin 0\<close>, \<open>cos 0\<close>, \<open>atan2 0 x\<close> for positive \<open>x\<close>,
  \<open>0**2\<close> and \<open>1**2\<close>.
\<close>

record arith =
  rnd :: "real \<Rightarrow> real"
  lib_sin :: "real \<Rightarrow> real"
  lib_cos :: "real \<Rightarrow> real"
  lib_atan2 :: "real \<Rightarrow> real \<Rightarrow> real"
  lib_pow2 :: "real \<Rightarrow> real"
  deg_to_rad :: real

definition fl :: "arith \<Rightarrow> real \<Rightarrow> real" where
  "fl ar v = (if v = 0 \<or> v = 1 then v else rnd ar v)"

definition f_sin :: "arith \<Rightarrow> real \<Rightarrow> real" where
  "f_sin ar x = (if x = 0 then 0 else lib_sin ar x)"

definition f_cos :: "arith \<Rightarrow> real \<Rightarrow> real" where
  "f_cos ar x = (if x = 0 then 1 else lib_cos ar x)"

definition f_atan2 :: "arith \<Rightarrow> real \<Rightarrow> real \<Rightarrow> real" where
  "f_atan2 ar y x = (if y = 0 \<and> 0 < x then 0 else lib_atan2 ar y x)"

definition f_pow2 :: "arith \<Rightarrow> real \<Rightarrow> real" where
  "f_pow2 ar x = (if x = 0 then 0 else if x = 1 then 1 else lib_pow2 ar x)"

text \<open>\<^verbatim>\<open>math.radians(x)\<close> is the product \<^verbatim>\<open>x * (pi/180)\<close>.\<close>

definition radians :: "arith \<Rightarrow> real \<Rightarrow> real" where
  "radians ar x = fl ar (x * deg_to_rad ar)"

text \<open>\<^verbatim>\<open>math.sqrt\<close> raises ValueError on a negative argument.\<close>

definition py_sqrt :: "arith \<Rightarrow> real \<Rightarrow> py_error + real" where
  "py_sqrt ar x = (if x < 0 then Inl ValueError else Inr (fl ar (sqrt x)))"

section \<open>config_manager.py: BirdNETConfigManager\<close>

text \<open>
  The configuration is changed in place, and \<^verbatim>\<open>yaml.safe_load\<close> makes a YAML alias
  the same object as its anchor; so a loaded document is a store of container objects
  (an address is an index into \<open>objects\<close>) and a value that is a scalar or a reference
  to a container.  \<^verbatim>\<open>self.config_data\<close> is the value \<open>doc_root\<close>: \<open>YNone\<close> before
  \<^verbatim>\<open>load\<close> and after loading an empty file.
\<close>

type_synonym addr = nat

datatype yval =
    YNone
  | YBool bool
  | YInt int
  | YFloat real
  | YStr string
  | YRef addr

datatype yobj =
    YDict "(string \<times> yval) list"
  | YList "yval list"

record document =
  doc_root :: yval
  objects :: "yobj list"

definition obj_at :: "yobj list \<Rightarrow> addr \<Rightarrow> yobj option" where
  "obj_at objs a = (if a < length objs then Some (objs ! a) else None)"

text \<open>The entries of the dict a value refers to; \<open>None\<close> when the value is not a
  dict.\<close>

definition dict_of :: "yobj list \<Rightarrow> yval \<Rightarrow> (string \<times> yval) list option" where
  "dict_of objs v =
     (case v of
        YRef a \<Rightarrow> (case obj_at objs a of Some (YDict kvs) \<Rightarrow> Some kvs | _ \<Rightarrow> None)
      | _ \<Rightarrow> None)"

text \<open>\<^verbatim>\<open>isinstance(v, (int, float))\<close>, with the number: \<^verbatim>\<open>bool\<close> is a subclass of
  \<^verbatim>\<open>int\<close>.\<close>

fun num_of :: "yval \<Rightarrow> real option" where
  "num_of (YInt i) = Some (real_of_int i)"
| "num_of (YFloat r) = Some r"
| "num_of (YBool b) = Some (if b then 1 else 0)"
| "num_of _ = None"

text \<open>\<^verbatim>\<open>BirdNETConfigManager.get_location\<close>.  \<^verbatim>\<open>.get\<close> on a value that is not a
  dict raises AttributeError; the default of the first \<^verbatim>\<open>.get\<close> is a new empty
  dict.\<close>

definition get_location :: "document \<Rightarrow> py_error + (real \<times> real) option" where
  "get_location config_data =
     (if doc_root config_data = YNone then Inr None
      else
        (case dict_of (objects config_data) (doc_root config_data) of
           None \<Rightarrow> Inl AttributeError
         | Some kvs \<Rightarrow>
             (case (case map_of kvs ''birdnet'' of
                      None \<Rightarrow> Some []
                    | Some v \<Rightarrow> dict_of (objects config_data) v) of
                None \<Rightarrow> Inl AttributeError
              | Some birdnet_section \<Rightarrow>
                  (let lat = (case map_of birdnet_section ''latitude'' of
                                None \<Rightarrow> YNone | Some v \<Rightarrow> v);
                       lon = (case map_of birdnet_section ''longitude'' of
                                None \<Rightarrow> YNone | Some v \<Rightarrow> v)
                   in if lat = YNone \<or> lon = YNone then Inr None
                      else
                        (case (num_of lat, num_of lon) of
                           (Some la, Some lo) \<Rightarrow>
                             if (la = 0 \<and> lo = 0)
                                \<or> \<not> (- 90 \<le> la \<and> la \<le> 90 \<and> - 180 \<le> lo \<and> lo \<le> 180)
                             then Inr None
                             else Inr (Some (la, lo))
                         | _ \<Rightarrow> Inr None)))))"

text \<open>\<^verbatim>\<open>BirdNETConfigManager.set_location\<close>: the result (or the exception) and the
  document afterwards.  A missing \<^verbatim>\<open>birdnet\<close> key is added at the end of the top-level
  dict with a new dict; the two item assignments then change the section object in place.
  On a top-level value that is not a dict every path raises TypeError before anything is
  stored (\<^verbatim>\<open>in\<close> on a scalar, a string subscript on a list or a string); so does the
  item assignment into a \<^verbatim>\<open>birdnet\<close> entry that is not a dict.\<close>

definition set_location :: "document \<Rightarrow> real \<Rightarrow> real \<Rightarrow> (py_error + bool) \<times> document" where
  "set_location config_data lat lon =
     (if doc_root config_data = YNone then (Inr False, config_data)
      else if \<not> (- 90 \<le> lat \<and> lat \<le> 90 \<and> - 180 \<le> lon \<and> lon \<le> 180)
      then (Inr False, config_data)
      else
        (case doc_root config_data of
           YRef r \<Rightarrow>
             (case obj_at (objects config_data) r of
                Some (YDict kvs) \<Rightarrow>
                  (case map_of kvs ''birdnet'' of
                     None \<Rightarrow>
                       (Inr True,
                        config_data\<lparr>objects :=
                          (objects config_data)
                            [r := YDict (kvs @ [(''birdnet'', YRef (length (objects config_data)))])]
                          @ [YDict [(''latitude'', YFloat lat), (''longitude'', YFloat lon)]]\<rparr>)
                   | Some (YRef s) \<Rightarrow>
                       (case obj_at (objects config_data) s of
                          Some (YDict sec) \<Rightarrow>
                            (Inr True,
                             config_data\<lparr>objects :=
                               (objects config_data)
                                 [s := YDict (AList.update ''longitude'' (YFloat lon)
                                           (AList.update ''latitude'' (YFloat lat) sec))]\<rparr>)
                        | _ \<Rightarrow> (Inl TypeError, config_data))
                   | Some _ \<Rightarrow> (Inl TypeError, config_data))
              | _ \<Rightarrow> (Inl TypeError, config_data))
         | _ \<Rightarrow> (Inl TypeError, config_data)))"

text \<open>The distance computation of \<^verbatim>\<open>location_changed\<close> (lines 159 to 175), every
  operation in the arithmetic of the run.  \<open>haversine_a\<close> is the value of \<^verbatim>\<open>a\<close> for
  coordinates already in radians.\<close>

definition haversine_a :: "arith \<Rightarrow> real \<Rightarrow> real \<Rightarrow> real \<Rightarrow> real \<Rightarrow> real" where
  "haversine_a ar lat1 lon1 lat2 lon2 =
     (let dlat = fl ar (lat2 - lat1);
          dlon = fl ar (lon2 - lon1)
      in fl ar (f_pow2 ar (f_sin ar (fl ar (dlat / 2)))
                + fl ar (fl ar (f_cos ar lat1 * f_cos ar lat2)
                         * f_pow2 ar (f_sin ar (fl ar (dlon / 2))))))"

definition haversine_km :: "arith \<Rightarrow> real \<Rightarrow> real \<Rightarrow> real \<Rightarrow> real \<Rightarrow> py_error + real" where
  "haversine_km ar cur_lat cur_lon new_lat new_lon =
     (let a = haversine_a ar (radians ar cur_lat) (radians ar cur_lon)
                (radians ar new_lat) (radians ar new_lon)
      in bind_err (py_sqrt ar a) (\<lambda>sa.
         bind_err (py_sqrt ar (fl ar (1 - a))) (\<lambda>sb.
           Inr (fl ar (6371 * fl ar (2 * f_atan2 ar sa sb))))))"

text \<open>\<^verbatim>\<open>BirdNETConfigManager.location_changed\<close>\<close>

definition location_changed ::
  "arith \<Rightarrow> document \<Rightarrow> real \<Rightarrow> real \<Rightarrow> real \<Rightarrow> py_error + bool" where
  "location_changed ar config_data new_latitude new_longitude threshold_km =
     bind_err (get_location config_data) (\<lambda>current_location.
       (case current_location of
          None \<Rightarrow> Inr True
        | Some (cur_lat, cur_lon) \<Rightarrow>
            bind_err (haversine_km ar cur_lat cur_lon new_latitude new_longitude) (\<lambda>distance.
              if distance > threshold_km then Inr True else Inr False)))"

text \<open>\<^verbatim>\<open>main\<close> calls \<^verbatim>\<open>config_manager.get_location_distance\<close>, an attribute the
  class \<^verbatim>\<open>BirdNETConfigManager\<close> does not define: the lookup raises AttributeError.\<close>

definition get_location_distance :: "document \<Rightarrow> real \<Rightarrow> real \<Rightarrow> py_error + real" where
  "get_location_distance config_data lat lon = Inl AttributeError"

text \<open>The disk: what is stored at \<^verbatim>\<open>config_path\<close> (\<open>None\<close> when there is no such
  file) and the backup copies, by the second of their timestamp (a copy made in the same
  second replaces the earlier one).  A file holds a document, or text that is not YAML.
  The faults say which file operations fail in a run; \<open>dump_leaves\<close> is \<open>None\<close> when
  \<^verbatim>\<open>yaml.dump\<close> succeeds, and otherwise what the interrupted write leaves in the file,
  which \<^verbatim>\<open>open\<close> with mode \<^verbatim>\<open>'w'\<close> has truncated before.\<close>

datatype file_content = Document document | Unparsable

record disk =
  config_file :: "file_content option"
  backups :: "nat \<Rightarrow> file_content option"

record io_faults =
  read_fails :: bool
  copy_fails :: bool
  open_fails :: bool
  dump_leaves :: "file_content option"

text \<open>\<^verbatim>\<open>BirdNETConfigManager.load\<close>: \<open>None\<close> when it returns False, the loaded
  \<^verbatim>\<open>config_data\<close> otherwise.\<close>

definition load :: "io_faults \<Rightarrow> disk \<Rightarrow> document option" where
  "load io d =
     (case config_file d of
        None \<Rightarrow> None
      | Some c \<Rightarrow>
          if read_fails io then None
          else (case c of Document doc \<Rightarrow> Some doc | Unparsable \<Rightarrow> None))"

text \<open>\<^verbatim>\<open>BirdNETConfigManager.save\<close>, at the second \<open>now\<close>.\<close>

definition save :: "io_faults \<Rightarrow> nat \<Rightarrow> document \<Rightarrow> bool \<Rightarrow> disk \<Rightarrow> bool \<times> disk" where
  "save io now config_data create_backup d =
     (if doc_root config_data = YNone then (False, d)
      else
        (case (case config_file d of
                 Some old \<Rightarrow>
                   if create_backup
                   then (if copy_fails io then Inl IOError
                         else Inr (d\<lparr>backups := (backups d)(now := Some old)\<rparr>))
                   else Inr d
               | None \<Rightarrow> Inr d) of
           Inl e \<Rightarrow> (False, d)
         | Inr d1 \<Rightarrow>
             if open_fails io then (False, d1)
             else
               (case dump_leaves io of
                  Some partial \<Rightarrow> (False, d1\<lparr>config_file := Some partial\<rparr>)
                | None \<Rightarrow> (True, d1\<lparr>config_file := Some (Document config_data)\<rparr>))))"

section \<open>location_manager.py\<close>

text \<open>\<^verbatim>\<open>wait_for_birdnet_go\<close>: up to \<^verbatim>\<open>max_wait_seconds\<close> probes, one per second.\<close>

definition wait_for_birdnet_go :: "(nat \<Rightarrow> bool) \<Rightarrow> nat \<Rightarrow> bool" where
  "wait_for_birdnet_go probe max_wait_seconds = list_ex probe [0 ..< max_wait_seconds]"

definition LOCATION_CHANGE_THRESHOLD_KM :: real where
  "LOCATION_CHANGE_THRESHOLD_KM = 100"

text \<open>The environment of a run.  \<open>cache_builder\<close> is what \<^verbatim>\<open>run_cache_builder\<close>
  returns for a list of flags: the exit code of the external tool, or 1 when starting it
  raised.  A run calls it with each list of flags at most once.  \<open>clock\<close> is the second
  at which the configuration is saved.\<close>

record env =
  birdnet_go_probe :: "nat \<Rightarrow> bool"
  detector :: detector_env
  cache_builder :: "string list \<Rightarrow> int"
  faults :: io_faults
  float_arith :: arith
  clock :: nat

text \<open>Step 8 of \<^verbatim>\<open>main\<close>: the exit code and the calls of the cache builder, in
  order.\<close>

definition unchanged_branch :: "(string list \<Rightarrow> int) \<Rightarrow> int \<times> string list list" where
  "unchanged_branch cb =
     (let exit_code = cb [''--check-only''] in
      if exit_code = 1 then
        (let exit_code' = cb [''--incremental''] in
         if exit_code' = 0 then (0, [[''--check-only''], [''--incremental'']])
         else if exit_code' = 2 then (2, [[''--check-only''], [''--incremental'']])
         else (1, [[''--check-only''], [''--incremental'']]))
      else if exit_code = 2 then (2, [[''--check-only'']])
      else (0, [[''--check-only'']]))"

text \<open>Steps 6 and 7 of \<^verbatim>\<open>main\<close>: the exit code, the disk afterwards and the calls of
  the cache builder.\<close>

definition changed_branch ::
  "env \<Rightarrow> document \<Rightarrow> real \<Rightarrow> real \<Rightarrow> disk \<Rightarrow> int \<times> disk \<times> string list list" where
  "changed_branch ev config_data lat lon d =
     (case set_location config_data lat lon of
        (Inl e, config_data') \<Rightarrow> (1, d, [])
      | (Inr False, config_data') \<Rightarrow> (1, d, [])
      | (Inr True, config_data') \<Rightarrow>
          (case save (faults ev) (clock ev) config_data' True d of
             (False, d') \<Rightarrow> (1, d', [])
           | (True, d') \<Rightarrow>
               (let flags = [''--update-species'', ''--incremental'', ''--yes''];
                    exit_code = cache_builder ev flags
                in if exit_code = 1 then (1, d', [flags]) else (0, d', [flags]))))"

text \<open>Steps 5 to 8 of \<^verbatim>\<open>main\<close>, from the persisted coordinate and the resolved one.
  An exception ends the run with exit code 1 (the \<^verbatim>\<open>except Exception\<close> of
  \<^verbatim>\<open>main\<close>).\<close>

definition update_if_changed ::
  "env \<Rightarrow> document \<Rightarrow> (real \<times> real) option \<Rightarrow> real \<Rightarrow> real \<Rightarrow> disk \<Rightarrow> int \<times> disk \<times> string list list" where
  "update_if_changed ev config_data current_location lat lon d =
     (case current_location of
        None \<Rightarrow> changed_branch ev config_data lat lon d
      | Some cur \<Rightarrow>
          (case location_changed (float_arith ev) config_data lat lon
                  LOCATION_CHANGE_THRESHOLD_KM of
             Inl e \<Rightarrow> (1, d, [])
           | Inr True \<Rightarrow>
               (case get_location_distance config_data lat lon of
                  Inl e \<Rightarrow> (1, d, [])
                | Inr distance \<Rightarrow> changed_branch ev config_data lat lon d)
           | Inr False \<Rightarrow>
               (case unchanged_branch (cache_builder ev) of
                  (code, calls) \<Rightarrow> (code, d, calls))))"

text \<open>\<^verbatim>\<open>main\<close>: the exit code, the disk afterwards and the calls of the cache
  builder.  Every exception is caught by its \<^verbatim>\<open>except Exception\<close> and ends the run
  with exit code 1.\<close>

definition main :: "env \<Rightarrow> disk \<Rightarrow> int \<times> disk \<times> string list list" where
  "main ev d =
     (if \<not> wait_for_birdnet_go (birdnet_go_probe ev) 30 then (1, d, [])
      else
        (case load (faults ev) d of
           None \<Rightarrow> (1, d, [])
         | Some config_data \<Rightarrow>
             (case get_location config_data of
                Inl e \<Rightarrow> (1, d, [])
              | Inr current_location \<Rightarrow>
                  (case fst (detect_location (detector ev)) of
                     Inl e \<Rightarrow> (1, d, [])
                   | Inr (Some l) \<Rightarrow>
                       update_if_changed ev config_data current_location
                         (latitude l) (longitude l) d
                   | Inr None \<Rightarrow>
                       (case current_location of
                          None \<Rightarrow> (1, d, [])
                        | Some (lat, lon) \<Rightarrow>
                            update_if_changed ev config_data current_location lat lon d)))))"

section \<open>The haversine formula\<close>

text \<open>The haversine formula as the specification words it: the great-circle distance
  on a sphere of radius \<open>r\<close> between two points given in radians, over the real numbers.
  \<open>hav\<close> is the quantity under its square root.\<close>

definition hav :: "real \<Rightarrow> real \<Rightarrow> real \<Rightarrow> real \<Rightarrow> real" where
  "hav phi1 lam1 phi2 lam2 =
     (sin ((phi2 - phi1) / 2))\<^sup>2 + cos phi1 * cos phi2 * (sin ((lam2 - lam1) / 2))\<^sup>2"

definition great_circle_haversine :: "real \<Rightarrow> real \<Rightarrow> real \<Rightarrow> real \<Rightarrow> real \<Rightarrow> real" where
  "great_circle_haversine r phi1 lam1 phi2 lam2 = 2 * r * arcsin (sqrt (hav phi1 lam1 phi2 lam2))"

text \<open>The two-argument arctangent of the reals.\<close>

definition atan2 :: "real \<Rightarrow> real \<Rightarrow> real" where
  "atan2 y x =
     (if 0 < x then arctan (y / x)
      else if x < 0 then (if 0 \<le> y then arctan (y / x) + pi else arctan (y / x) - pi)
      else if 0 < y then pi / 2
      else if y < 0 then - (pi / 2)
      else 0)"

section \<open>Arithmetics\<close>

text \<open>The exact arithmetic of the reals: no operation rounds.\<close>

definition exact_arith :: arith where
  "exact_arith =
     \<lparr>rnd = (\<lambda>x. x), lib_sin = sin, lib_cos = cos, lib_atan2 = atan2,
      lib_pow2 = (\<lambda>x. x\<^sup>2), deg_to_rad = pi / 180\<rparr>"

text \<open>
  Binary64 at the operations of the distance from (2.5, 0) to (-2.5, 180): the constant
  \<^verbatim>\<open>pi/180\<close> is the double \<open>5030569068109113 / 2 ^ 58\<close>; the products \<^verbatim>\<open>2.5 * c\<close>,
  \<^verbatim>\<open>180 * c\<close>, \<^verbatim>\<open>cos(lat1) * cos(lat2)\<close> and the final sum are rounded to the nearest
  double (lemma \<open>binary64_rnd_nearest\<close>); \<^verbatim>\<open>math.sin\<close>, \<^verbatim>\<open>math.cos\<close> and
  \<^verbatim>\<open>**2\<close> have the values CPython returns, with the GNU C library, at the arguments of
  this computation.  Every other operation of the computation has a double as its exact
  result.
\<close>

definition binary64_rnd :: "real \<Rightarrow> real" where
  "binary64_rnd x =
     (if x = 5 / 2 * (5030569068109113 / 2 ^ 58) then 6288211335136391 / 2 ^ 57
      else if x = - (5 / 2) * (5030569068109113 / 2 ^ 58) then - (6288211335136391 / 2 ^ 57)
      else if x = 180 * (5030569068109113 / 2 ^ 58) then 884279719003555 / 2 ^ 48
      else if x = (8998626396882423 / 2 ^ 53) * (8998626396882423 / 2 ^ 53)
        then 4495030849242473 / 2 ^ 52
      else if x = 4387214401548047 / 2 ^ 61 + 4495030849242473 / 2 ^ 52
        then 4503599627370497 / 2 ^ 52
      else x)"

definition binary64_run :: arith where
  "binary64_run =
     \<lparr>rnd = binary64_rnd,
      lib_sin = (\<lambda>x. if x = - (6288211335136391 / 2 ^ 57) then - (6286216213909009 / 2 ^ 57)
                      else if x = 884279719003555 / 2 ^ 49 then 1
                      else sin x),
      lib_cos = (\<lambda>x. if x = 6288211335136391 / 2 ^ 57 \<or> x = - (6288211335136391 / 2 ^ 57)
                      then 8998626396882423 / 2 ^ 53
                      else cos x),
      lib_atan2 = atan2,
      lib_pow2 = (\<lambda>x. if x = - (6286216213909009 / 2 ^ 57) then 4387214401548047 / 2 ^ 61
                       else x\<^sup>2),
      deg_to_rad = 5030569068109113 / 2 ^ 58\<rparr>"

section \<open>Observations on documents\<close>

text \<open>The entries of the dict at an address (none when there is no dict there), and the
  entries whose key is not among \<open>ks\<close>, in their order.\<close>

definition entries_at :: "yobj list \<Rightarrow> addr \<Rightarrow> (string \<times> yval) list" where
  "entries_at objs a = (case obj_at objs a of Some (YDict kvs) \<Rightarrow> kvs | _ \<Rightarrow> [])"

definition other_than :: "string set \<Rightarrow> (string \<times> yval) list \<Rightarrow> (string \<times> yval) list" where
  "other_than ks kvs = filter (\<lambda>p. fst p \<notin> ks) kvs"


definition no_faults :: io_faults where
  "no_faults = \<lparr>read_fails = False, copy_fails = False, open_fails = False, dump_leaves = None\<rparr>"

section \<open>Example inputs\<close>

text \<open>A configuration document with a stored coordinate among other settings: the
  top-level dict is object 0, the \<^verbatim>\<open>birdnet\<close> section is object 2.\<close>

definition example_config :: "real \<Rightarrow> real \<Rightarrow> document" where
  "example_config lat lon =
     \<lparr>doc_root = YRef 0,
      objects =
        [YDict [(''main'', YRef 1), (''birdnet'', YRef 2), (''realtime'', YRef 3)],
         YDict [(''name'', YStr ''BirdNET-Go'')],
         YDict [(''sensitivity'', YFloat 1), (''latitude'', YFloat lat),
                (''longitude'', YFloat lon), (''locale'', YStr ''en'')],
         YDict [(''interval'', YInt 15)]]\<rparr>"

text \<open>A configuration document with no \<^verbatim>\<open>birdnet\<close> section.\<close>

definition example_config_unset :: document where
  "example_config_unset =
     \<lparr>doc_root = YRef 0,
      objects = [YDict [(''main'', YRef 1)], YDict [(''name'', YStr ''BirdNET-Go'')]]\<rparr>"

text \<open>The document of a file with an empty \<^verbatim>\<open>birdnet:\<close> key.\<close>

definition example_config_null :: document where
  "example_config_null = \<lparr>doc_root = YRef 0, objects = [YDict [(''birdnet'', YNone)]]\<rparr>"


text \<open>The first provider answers with a coordinate; the others are unreachable.\<close>

definition http_ipapi :: "real \<Rightarrow> real \<Rightarrow> string \<Rightarrow> http_outcome" where
  "http_ipapi lat lon url =
     (if url = ''https://ipapi.co/json/''
      then Body (PDict [(''ip'', PStr ''203.0.113.7''), (''city'', PStr ''Atlanta''),
                        (''latitude'', PFloat lat), (''longitude'', PFloat lon)])
      else Raised RequestException)"

text \<open>No provider is reachable.\<close>

definition http_down :: "string \<Rightarrow> http_outcome" where
  "http_down url = Raised RequestException"

definition gps_fix :: location where
  "gps_fix = \<lparr>latitude = 33.7512, longitude = - 84.3901, detection_method = ''GPS hardware'',
              accuracy = ''high-precision (~5-10m)''\<rparr>"

definition manual_location :: location where
  "manual_location = \<lparr>latitude = 33.749, longitude = - 84.388, detection_method = ''manual configuration'',
                      accuracy = ''user-specified''\<rparr>"

definition no_float :: "string \<Rightarrow> real option" where
  "no_float s = None"

text \<open>The third provider answers with a \<^verbatim>\<open>loc\<close> that is not a coordinate pair; the
  others are unreachable.\<close>

definition http_ipinfo_bad :: "string \<Rightarrow> http_outcome" where
  "http_ipinfo_bad url =
     (if url = ''https://ipinfo.io/json''
      then Body (PDict [(''ip'', PStr ''203.0.113.7''), (''loc'', PStr ''unknown'')])
      else Raised RequestException)"

text \<open>The first provider answers with null coordinates.\<close>

definition http_ipapi_null :: "string \<Rightarrow> http_outcome" where
  "http_ipapi_null url =
     (if url = ''https://ipapi.co/json/''
      then Body (PDict [(''ip'', PStr ''203.0.113.7''), (''latitude'', PNone),
                        (''longitude'', PNone)])
      else Raised RequestException)"

text \<open>A run in which BirdNET-Go answers the third probe, only the HTTP providers \<open>h\<close> can
  give a location, the cache builder answers \<open>cb\<close>, the arithmetic is \<open>ar\<close> and no file
  operation fails.\<close>

definition example_env ::
  "(string \<Rightarrow> http_outcome) \<Rightarrow> (string list \<Rightarrow> int) \<Rightarrow> arith \<Rightarrow> env" where
  "example_env h cb ar =
     \<lparr>birdnet_go_probe = (\<lambda>i. 2 \<le> i),
      detector = \<lparr>float_parser = no_float, http = h, gps_hardware = Inr None,
                  manual_config = Inr None\<rparr>,
      cache_builder = cb,
      faults = no_faults,
      float_arith = ar,
      clock = 1700000000\<rparr>"

definition example_disk :: "document \<Rightarrow> disk" where
  "example_disk doc = \<lparr>config_file = Some (Document doc), backups = (\<lambda>t. None)\<rparr>"

text \<open>A cache builder that answers \<open>c\<close> to \<^verbatim>\<open>--check-only\<close>, \<open>i\<close> to
  \<^verbatim>\<open>--incremental\<close> and \<open>u\<close> to the species update.\<close>

definition cb_codes :: "int \<Rightarrow> int \<Rightarrow> int \<Rightarrow> string list \<Rightarrow> int" where
  "cb_codes c i u flags =
     (if flags = [''--check-only''] then c
      else if flags = [''--incremental''] then i
      else u)"

section \<open>Coordinate validation\<close>

text \<open>
  C5.  The validator returns false when the latitude is outside [-90, 90] or the longitude
  is outside [-180, 180], false at (0, 0), and true otherwise; in particular it is false
  at (0, 0), (91, 0) and (0, 181) and true at (45, -80).
\<close>

theorem validate_coordinates_spec:
  "validate_coordinates lat lon =
     (lat \<in> {- 90 .. 90} \<and> lon \<in> {- 180 .. 180} \<and> (lat, lon) \<noteq> (0, 0))
   \<and> validate_coordinates 0 0 = False
   \<and> validate_coordinates 91 0 = False
   \<and> validate_coordinates 0 181 = False
   \<and> validate_coordinates 45 (- 80) = True"
  by (auto simp: validate_coordinates_def)

section \<open>The distance computation\<close>

lemma abs_prod_le_half_squares: "\<bar>x * y\<bar> \<le> (x\<^sup>2 + y\<^sup>2) / 2" for x y :: real
proof -
  have "2 * \<bar>x\<bar> * \<bar>y\<bar> \<le> \<bar>x\<bar>\<^sup>2 + \<bar>y\<bar>\<^sup>2"
    by (rule sum_squares_bound)
  then show ?thesis by (simp add: abs_mult)
qed

lemma dot_le_one:
  fixes s1 s2 c1 c2 k :: real
  assumes s1: "s1\<^sup>2 + c1\<^sup>2 = 1" and s2: "s2\<^sup>2 + c2\<^sup>2 = 1" and k: "\<bar>k\<bar> \<le> 1"
  shows "\<bar>s1 * s2 + c1 * c2 * k\<bar> \<le> 1"
proof -
  have "\<bar>c1 * c2 * k\<bar> = \<bar>c1 * c2\<bar> * \<bar>k\<bar>"
    by (simp add: abs_mult)
  also have "\<dots> \<le> \<bar>c1 * c2\<bar>"
    using k by (simp add: mult_left_le)
  finally have ck: "\<bar>c1 * c2 * k\<bar> \<le> (c1\<^sup>2 + c2\<^sup>2) / 2"
    using abs_prod_le_half_squares [of c1 c2] by linarith
  have "\<bar>s1 * s2 + c1 * c2 * k\<bar> \<le> \<bar>s1 * s2\<bar> + \<bar>c1 * c2 * k\<bar>"
    by (rule abs_triangle_ineq)
  also have "\<dots> \<le> (s1\<^sup>2 + s2\<^sup>2) / 2 + (c1\<^sup>2 + c2\<^sup>2) / 2"
    using abs_prod_le_half_squares [of s1 s2] ck by linarith
  also have "\<dots> = 1"
    using s1 s2 by (simp add: field_simps)
  finally show ?thesis .
qed

lemma sin_half_sq: "(sin (x / 2))\<^sup>2 = (1 - cos x) / 2" for x :: real
  using cos_double_sin [of "x / 2"] by simp

lemma hav_alt:
  "2 * hav p1 l1 p2 l2 = 1 - (sin p1 * sin p2 + cos p1 * cos p2 * cos (l2 - l1))"
proof -
  have "2 * hav p1 l1 p2 l2 =
      (1 - cos (p2 - p1)) + cos p1 * cos p2 * (1 - cos (l2 - l1))"
    unfolding hav_def sin_half_sq by (simp add: field_simps)
  also have "cos (p2 - p1) = cos p2 * cos p1 + sin p2 * sin p1"
    by (rule cos_diff)
  finally show ?thesis by (simp add: algebra_simps)
qed

lemma hav_range: "0 \<le> hav p1 l1 p2 l2 \<and> hav p1 l1 p2 l2 \<le> 1"
proof -
  have "\<bar>sin p1 * sin p2 + cos p1 * cos p2 * cos (l2 - l1)\<bar> \<le> 1"
    by (rule dot_le_one) (simp_all add: abs_cos_le_one)
  then show ?thesis
    using hav_alt [of p1 l1 p2 l2] by linarith
qed

lemma hav_sym: "hav p2 l2 p1 l1 = hav p1 l1 p2 l2"
proof -
  have flip: "(x - y) / 2 = - ((y - x) / 2)" for x y :: real
    by (simp add: diff_divide_distrib)
  have "sin ((p1 - p2) / 2) = - sin ((p2 - p1) / 2)"
    by (subst flip) (rule sin_minus)
  moreover have "sin ((l1 - l2) / 2) = - sin ((l2 - l1) / 2)"
    by (subst flip) (rule sin_minus)
  ultimately show ?thesis
    by (simp add: hav_def mult.commute)
qed

lemma hav_same: "hav p l p l = 0"
  by (simp add: hav_def)

lemma atan2_sqrt_arcsin:
  assumes "0 \<le> a" "a \<le> 1"
  shows "atan2 (sqrt a) (sqrt (1 - a)) = arcsin (sqrt a)"
proof (cases "a = 1")
  case True
  then show ?thesis by (simp add: atan2_def)
next
  case False
  with assms have lt: "a < 1" by simp
  define t where "t = sqrt a / sqrt (1 - a)"
  have pos: "0 < sqrt (1 - a)" using lt by simp
  have "1 + t\<^sup>2 = 1 / (1 - a)"
    using assms lt by (simp add: t_def power_divide field_simps)
  then have "sqrt (1 + t\<^sup>2) = 1 / sqrt (1 - a)"
    by (simp add: real_sqrt_divide)
  then have "sin (arctan t) = sqrt a"
    using pos by (simp add: sin_arctan t_def)
  moreover have "- (pi / 2) \<le> arctan t" "arctan t \<le> pi / 2"
    using arctan_bounded [of t] by simp_all
  ultimately have "arcsin (sqrt a) = arctan t"
    using arcsin_sin [of "arctan t"] by simp
  then show ?thesis
    using pos by (simp add: atan2_def t_def)
qed

text \<open>In the exact arithmetic the computation is the haversine formula: it never
  raises, and its result is non-negative and symmetric.\<close>

lemma fl_exact: "fl exact_arith v = v"
  by (simp add: fl_def exact_arith_def)

lemma radians_exact: "radians exact_arith x = x * (pi / 180)"
  by (simp add: radians_def fl_exact) (simp add: exact_arith_def)

lemma f_sin_exact: "f_sin exact_arith x = sin x"
  by (simp add: f_sin_def exact_arith_def)

lemma f_cos_exact: "f_cos exact_arith x = cos x"
  by (simp add: f_cos_def exact_arith_def)

lemma f_pow2_exact: "f_pow2 exact_arith x = x\<^sup>2"
  by (simp add: f_pow2_def exact_arith_def)

lemma f_atan2_exact: "f_atan2 exact_arith y x = atan2 y x"
  by (simp add: f_atan2_def exact_arith_def atan2_def)

lemma haversine_a_exact: "haversine_a exact_arith p1 l1 p2 l2 = hav p1 l1 p2 l2"
  by (simp add: haversine_a_def hav_def fl_exact f_sin_exact f_cos_exact f_pow2_exact Let_def)

lemma haversine_km_exact:
  "haversine_km exact_arith la1 lo1 la2 lo2 =
     Inr (6371 * (2 * arcsin (sqrt (hav (radians exact_arith la1) (radians exact_arith lo1)
                                        (radians exact_arith la2) (radians exact_arith lo2)))))"
  using hav_range [of "radians exact_arith la1" "radians exact_arith lo1"
      "radians exact_arith la2" "radians exact_arith lo2"]
  by (simp add: haversine_km_def haversine_a_exact py_sqrt_def bind_err_def Let_def fl_exact
      f_atan2_exact atan2_sqrt_arcsin)

lemma haversine_km_exact_formula:
  "haversine_km exact_arith la1 lo1 la2 lo2 =
     Inr (great_circle_haversine 6371 (la1 * (pi / 180)) (lo1 * (pi / 180))
            (la2 * (pi / 180)) (lo2 * (pi / 180)))"
  by (simp add: haversine_km_exact great_circle_haversine_def radians_exact)

lemma haversine_km_exact_nonneg:
  "\<exists>d. haversine_km exact_arith la1 lo1 la2 lo2 = Inr d \<and> 0 \<le> d"
proof -
  let ?a = "hav (radians exact_arith la1) (radians exact_arith lo1)
                (radians exact_arith la2) (radians exact_arith lo2)"
  have "0 \<le> sqrt ?a" "sqrt ?a \<le> 1"
    using hav_range [of "radians exact_arith la1" "radians exact_arith lo1"
        "radians exact_arith la2" "radians exact_arith lo2"]
    by simp_all
  then have "0 \<le> arcsin (sqrt ?a)"
    by (simp add: arcsin_nonneg)
  then show ?thesis
    by (simp add: haversine_km_exact)
qed

lemma haversine_km_exact_sym:
  "haversine_km exact_arith la2 lo2 la1 lo1 = haversine_km exact_arith la1 lo1 la2 lo2"
  by (simp add: haversine_km_exact hav_sym)


text \<open>A point is at distance 0 from itself, in every arithmetic.\<close>

lemma haversine_a_same: "haversine_a ar p l p l = 0"
  by (simp add: haversine_a_def fl_def f_sin_def f_pow2_def Let_def)

lemma haversine_km_same: "haversine_km ar la lo la lo = Inr 0"
  by (simp add: haversine_km_def haversine_a_same py_sqrt_def bind_err_def fl_def f_atan2_def)

text \<open>The computation raises exactly when the value of \<^verbatim>\<open>a\<close>, or of \<^verbatim>\<open>1-a\<close>, is
  negative.\<close>

lemma haversine_km_raises_iff:
  "(\<exists>e. haversine_km ar la1 lo1 la2 lo2 = Inl e) \<longleftrightarrow>
     haversine_a ar (radians ar la1) (radians ar lo1) (radians ar la2) (radians ar lo2) < 0
   \<or> fl ar (1 - haversine_a ar (radians ar la1) (radians ar lo1) (radians ar la2) (radians ar lo2)) < 0"
  by (auto simp: haversine_km_def py_sqrt_def bind_err_def Let_def)

text \<open>Each rounding of \<open>binary64_rnd\<close> is to a nearest double: the error is at most half a
  unit in the last place of the result.\<close>

lemma binary64_rnd_nearest:
  "\<bar>binary64_rnd (5 / 2 * (5030569068109113 / 2 ^ 58)) - 5 / 2 * (5030569068109113 / 2 ^ 58)\<bar>
     \<le> 1 / 2 ^ 58"
  "\<bar>binary64_rnd (180 * (5030569068109113 / 2 ^ 58)) - 180 * (5030569068109113 / 2 ^ 58)\<bar>
     \<le> 1 / 2 ^ 52"
  "\<bar>binary64_rnd ((8998626396882423 / 2 ^ 53) * (8998626396882423 / 2 ^ 53))
      - (8998626396882423 / 2 ^ 53) * (8998626396882423 / 2 ^ 53)\<bar> \<le> 1 / 2 ^ 54"
  "\<bar>binary64_rnd (4387214401548047 / 2 ^ 61 + 4495030849242473 / 2 ^ 52)
      - (4387214401548047 / 2 ^ 61 + 4495030849242473 / 2 ^ 52)\<bar> \<le> 1 / 2 ^ 53"
  by (simp_all add: binary64_rnd_def)

lemma haversine_a_binary64:
  "haversine_a binary64_run (radians binary64_run (5 / 2)) (radians binary64_run 0)
     (radians binary64_run (- (5 / 2))) (radians binary64_run 180) = 4503599627370497 / 2 ^ 52"
  by (simp add: haversine_a_def radians_def fl_def f_sin_def f_cos_def f_pow2_def
        binary64_run_def binary64_rnd_def Let_def)



text \<open>
  C8.  The computation is the haversine formula on a sphere of radius 6371 km, but it
  does not return a distance for every pair of valid coordinates.  For the stored
  coordinate (2.5, 0) and the new coordinate (-2.5, 180), in binary64, the value of
  \<^verbatim>\<open>a\<close> is \<open>1 + 1 / 2 ^ 52\<close>, so \<^verbatim>\<open>1-a\<close> is negative and \<^verbatim>\<open>math.sqrt(1-a)\<close>
  raises ValueError.
\<close>

theorem haversine_km_raises_at_antipodes:
  "haversine_a binary64_run (radians binary64_run 2.5) (radians binary64_run 0)
     (radians binary64_run (- 2.5)) (radians binary64_run 180) = 1 + 1 / 2 ^ 52
   \<and> haversine_km binary64_run 2.5 0 (- 2.5) 180 = Inl ValueError"
proof -
  have a: "haversine_a binary64_run (radians binary64_run 2.5) (radians binary64_run 0)
     (radians binary64_run (- 2.5)) (radians binary64_run 180) = 1 + 1 / 2 ^ 52"
    using haversine_a_binary64 by simp
  have "fl binary64_run (1 - (1 + 1 / 2 ^ 52)) < 0"
    by (simp add: fl_def binary64_run_def binary64_rnd_def)
  then have "haversine_km binary64_run 2.5 0 (- 2.5) 180 = Inl ValueError"
    unfolding haversine_km_def Let_def a
    by (simp add: py_sqrt_def bind_err_def)
  with a show ?thesis by simp
qed

section \<open>The change decision\<close>

lemma location_changed_none:
  "get_location cfg = Inr None \<Longrightarrow> location_changed ar cfg la lo thr = Inr True"
  by (simp add: location_changed_def bind_err_def)

lemma location_changed_some:
  "get_location cfg = Inr (Some (cla, clo)) \<Longrightarrow> haversine_km ar cla clo la lo = Inr d \<Longrightarrow>
   location_changed ar cfg la lo thr = Inr (thr < d)"
  by (simp add: location_changed_def bind_err_def)

lemma location_changed_error:
  "get_location cfg = Inr (Some (cla, clo)) \<Longrightarrow> haversine_km ar cla clo la lo = Inl e \<Longrightarrow>
   location_changed ar cfg la lo thr = Inl e"
  by (simp add: location_changed_def bind_err_def)

lemma location_changed_same:
  assumes "get_location cfg = Inr (Some (lat, lon))"
  shows "location_changed ar cfg lat lon LOCATION_CHANGE_THRESHOLD_KM = Inr False"
  using location_changed_some [OF assms haversine_km_same, of ar LOCATION_CHANGE_THRESHOLD_KM]
  by (simp add: LOCATION_CHANGE_THRESHOLD_KM_def)

text \<open>The example documents.\<close>

lemma get_location_example:
  "validate_coordinates lat lon \<Longrightarrow> get_location (example_config lat lon) = Inr (Some (lat, lon))"
  by (auto simp: validate_coordinates_def get_location_def example_config_def dict_of_def
        obj_at_def split: if_splits)

lemma get_location_unset: "get_location example_config_unset = Inr None"
  by (simp add: get_location_def example_config_unset_def dict_of_def obj_at_def)

lemma get_location_null: "get_location example_config_null = Inl AttributeError"
  by (simp add: get_location_def example_config_null_def dict_of_def obj_at_def)

text \<open>
  C2.  Where a distance is computed the decision is the strict comparison
  \<open>threshold < distance\<close> (lemma \<open>location_changed_some\<close>), and with no stored
  coordinate the result is true (lemma \<open>location_changed_none\<close>); but a decision is not
  made for every stored and every new coordinate.  For the stored coordinate (2.5, 0) and
  the new coordinate (-2.5, 180), in binary64, \<^verbatim>\<open>location_changed\<close> raises the ValueError
  of \<^verbatim>\<open>math.sqrt(1-a)\<close>; and on a document whose \<^verbatim>\<open>birdnet\<close> key is empty, which
  holds no valid stored coordinate, it raises AttributeError for every new coordinate.
\<close>

theorem location_changed_raises:
  "get_location (example_config 2.5 0) = Inr (Some (2.5, 0))
   \<and> location_changed binary64_run (example_config 2.5 0) (- 2.5) 180 100 = Inl ValueError
   \<and> location_changed ar example_config_null new_lat new_lon thr = Inl AttributeError"
proof -
  have g: "get_location (example_config 2.5 0) = Inr (Some (2.5, 0))"
    by (rule get_location_example) (simp add: validate_coordinates_def)
  have h: "haversine_km binary64_run 2.5 0 (- 2.5) 180 = Inl ValueError"
    unfolding haversine_km_def Let_def
    using haversine_a_binary64
    by (simp add: py_sqrt_def bind_err_def fl_def binary64_run_def binary64_rnd_def)
  have "location_changed binary64_run (example_config 2.5 0) (- 2.5) 180 100 = Inl ValueError"
    using g h by (rule location_changed_error)
  moreover have "location_changed ar example_config_null new_lat new_lon thr = Inl AttributeError"
    by (simp add: location_changed_def get_location_null bind_err_def)
  ultimately show ?thesis
    using g by simp
qed


section \<open>The fallback chain\<close>

text \<open>
  C3.  \<^verbatim>\<open>detect_location\<close> tries IP geolocation, then GPS hardware, then the manual
  configuration, and stops at the first source that gives a location: a result of the IP
  source is returned without the other sources being invoked.  It returns None exactly
  when all three sources return None.
\<close>

theorem detect_location_order:
  "(try_ip_geolocation (float_parser de) (http de) = Inr (Some l) \<longrightarrow>
      detect_location de = (Inr (Some l), [IPGeolocation]))
   \<and> (try_ip_geolocation (float_parser de) (http de) = Inr None \<and> gps_hardware de = Inr (Some l) \<longrightarrow>
      detect_location de = (Inr (Some l), [IPGeolocation, GPSHardware]))
   \<and> (try_ip_geolocation (float_parser de) (http de) = Inr None \<and> gps_hardware de = Inr None
        \<and> manual_config de = Inr r \<longrightarrow>
      detect_location de = (Inr r, [IPGeolocation, GPSHardware, ManualConfig]))
   \<and> (fst (detect_location de) = Inr None \<longleftrightarrow>
        try_ip_geolocation (float_parser de) (http de) = Inr None \<and> gps_hardware de = Inr None
        \<and> manual_config de = Inr None)"
  by (auto simp: detect_location_def split: sum.splits option.splits)

lemma try_ip_geolocation_ipapi:
  "validate_coordinates lat lon \<Longrightarrow>
   try_ip_geolocation pf (http_ipapi lat lon) =
     Inr (Some \<lparr>latitude = lat, longitude = lon, detection_method = ''ipapi.co'',
                accuracy = ''city-level (~10-50km)''\<rparr>)"
  by (simp add: try_ip_geolocation_def apis_def try_api_def http_ipapi_def parse_ipapi_co_def
        bind_err_def)

lemma try_ip_geolocation_down: "try_ip_geolocation pf http_down = Inr None"
  by (simp add: try_ip_geolocation_def apis_def try_api_def http_down_def ip_caught_def)

theorem detect_location_order_witness:
  "detect_location \<lparr>float_parser = no_float, http = http_ipapi 33.749 (- 84.388),
                     gps_hardware = Inr (Some gps_fix), manual_config = Inr (Some manual_location)\<rparr>
     = (Inr (Some \<lparr>latitude = 33.749, longitude = - 84.388, detection_method = ''ipapi.co'',
                    accuracy = ''city-level (~10-50km)''\<rparr>), [IPGeolocation])
   \<and> detect_location \<lparr>float_parser = no_float, http = http_down,
                     gps_hardware = Inr (Some gps_fix), manual_config = Inr (Some manual_location)\<rparr>
     = (Inr (Some gps_fix), [IPGeolocation, GPSHardware])
   \<and> detect_location \<lparr>float_parser = no_float, http = http_down,
                     gps_hardware = Inr None, manual_config = Inr (Some manual_location)\<rparr>
     = (Inr (Some manual_location), [IPGeolocation, GPSHardware, ManualConfig])
   \<and> fst (detect_location \<lparr>float_parser = no_float, http = http_down,
                     gps_hardware = Inr None, manual_config = Inr None\<rparr>) = Inr None"
proof -
  have v: "validate_coordinates 33.749 (- 84.388)"
    by (simp add: validate_coordinates_def)
  show ?thesis
    using detect_location_order [of "\<lparr>float_parser = no_float, http = http_ipapi 33.749 (- 84.388),
                     gps_hardware = Inr (Some gps_fix), manual_config = Inr (Some manual_location)\<rparr>"
          "\<lparr>latitude = 33.749, longitude = - 84.388, detection_method = ''ipapi.co'',
                    accuracy = ''city-level (~10-50km)''\<rparr>"]
      detect_location_order [of "\<lparr>float_parser = no_float, http = http_down,
                     gps_hardware = Inr (Some gps_fix), manual_config = Inr (Some manual_location)\<rparr>"
          gps_fix]
      detect_location_order [of "\<lparr>float_parser = no_float, http = http_down,
                     gps_hardware = Inr None, manual_config = Inr (Some manual_location)\<rparr>"
          gps_fix "Some manual_location"]
      detect_location_order [of "\<lparr>float_parser = no_float, http = http_down,
                     gps_hardware = Inr None, manual_config = Inr None\<rparr>"]
      try_ip_geolocation_ipapi [OF v, of no_float] try_ip_geolocation_down [of no_float]
    by simp
qed

text \<open>
  C4.  A source does let an exception through.  The IP source catches RequestException,
  JSONDecodeError and KeyError only: when ipinfo.io answers with a \<^verbatim>\<open>loc\<close> that does not
  split into two parts, the ValueError of the unpacking leaves
  \<^verbatim>\<open>_try_ip_geolocation\<close> and \<^verbatim>\<open>detect_location\<close>; when ipapi.co answers with null
  coordinates, the TypeError of \<^verbatim>\<open>float(None)\<close> does.
\<close>

theorem try_ip_geolocation_raises:
  "try_ip_geolocation pf http_ipinfo_bad = Inl ValueError
   \<and> fst (detect_location \<lparr>float_parser = pf, http = http_ipinfo_bad,
                            gps_hardware = Inr None, manual_config = Inr None\<rparr>) = Inl ValueError
   \<and> try_ip_geolocation pf http_ipapi_null = Inl TypeError"
  by (simp add: detect_location_def try_ip_geolocation_def apis_def try_api_def
        http_ipinfo_bad_def http_ipapi_null_def ip_caught_def parse_ipinfo_io_def
        parse_ipapi_co_def bind_err_def)

section \<open>Numeric bounds on distances in the exact arithmetic\<close>

lemma pi_ge_three: "3 \<le> pi"
proof -
  have "sin (pi / 6) \<le> pi / 6"
    by (rule sin_x_le_x) simp
  then show ?thesis
    by (simp add: sin_30)
qed

lemma sin_pow2_le: "0 \<le> x \<Longrightarrow> 2 ^ k * x \<le> pi \<Longrightarrow> sin (2 ^ k * x) \<le> 2 ^ k * sin x"
proof (induction k)
  case 0
  then show ?case by simp
next
  case (Suc k)
  let ?u = "2 ^ k * x"
  have u0: "0 \<le> ?u"
    using Suc.prems(1) by simp
  have "2 * ?u \<le> pi"
    using Suc.prems(2) by (simp add: mult.assoc)
  with u0 have u: "0 \<le> ?u" "?u \<le> pi"
    by linarith+
  have "sin (2 ^ Suc k * x) = 2 * sin ?u * cos ?u"
    using sin_double [of ?u] by (simp add: mult.assoc)
  also have "\<dots> \<le> 2 * sin ?u * 1"
    using sin_ge_zero [OF u] by (intro mult_left_mono) simp_all
  also have "\<dots> \<le> 2 * (2 ^ k * sin x)"
    using Suc.IH [OF Suc.prems(1) u(2)] by simp
  finally show ?case by simp
qed

lemma sin_quarter_pi_ge: "7 / 10 \<le> sin (pi / 4)"
proof -
  have "(14 / 10 :: real) \<le> sqrt 2"
    by (rule real_le_rsqrt) (simp add: power2_eq_square)
  then show ?thesis
    by (simp add: sin_45)
qed

lemma sin_lower_bound:
  assumes "0 \<le> x" and "pi / 4 \<le> 2 ^ k * x" and "2 ^ k * x \<le> pi / 2"
  shows "7 / (10 * 2 ^ k) \<le> sin x"
proof -
  have "7 / 10 \<le> sin (pi / 4)"
    by (rule sin_quarter_pi_ge)
  also have "\<dots> \<le> sin (2 ^ k * x)"
    using assms by (intro sin_monotone_2pi_le) simp_all
  also have "\<dots> \<le> 2 ^ k * sin x"
    using assms by (intro sin_pow2_le) simp_all
  finally show ?thesis
    by (simp add: field_simps)
qed

lemma arcsin_ge_self: "0 \<le> x \<Longrightarrow> x \<le> 1 \<Longrightarrow> x \<le> arcsin x"
proof -
  assume x: "0 \<le> x" "x \<le> 1"
  then have "0 \<le> arcsin x"
    by (simp add: arcsin_nonneg)
  then have "sin (arcsin x) \<le> arcsin x"
    by (rule sin_x_le_x)
  then show ?thesis
    using x by simp
qed

text \<open>New York to Atlanta, in the exact arithmetic: more than 100 km.\<close>

lemma haversine_km_new_york_atlanta:
  "\<exists>d. haversine_km exact_arith 40.7128 (- 74.006) 33.749 (- 84.388) = Inr d \<and> 100 < d"
proof -
  define a where
    "a = hav (radians exact_arith 40.7128) (radians exact_arith (- 74.006)) (radians exact_arith 33.749) (radians exact_arith (- 84.388))"
  define y :: real where "y = 34819 * pi / 1800000"
  have a01: "0 \<le> a" "a \<le> 1"
    using hav_range unfolding a_def by blast+
  have y0: "0 \<le> y" by (simp add: y_def)
  have "7 / (10 * 2 ^ 4) \<le> sin y"
    using pi_ge_three by (intro sin_lower_bound) (simp_all add: y_def)
  then have siny: "7 / 160 \<le> sin y" by simp
  have "(7 / 160)\<^sup>2 \<le> (sin y)\<^sup>2"
    using siny by (intro power_mono) simp_all
  then have sq: "1 / 529 \<le> (sin y)\<^sup>2"
    by (simp add: power2_eq_square)
  have half: "(radians exact_arith 33.749 - radians exact_arith 40.7128) / 2 = - y"
    by (simp add: radians_exact y_def)
  have c1: "0 \<le> cos (radians exact_arith 40.7128)"
    using pi_ge_zero by (intro cos_ge_zero) (simp_all add: radians_exact)
  have c2: "0 \<le> cos (radians exact_arith 33.749)"
    using pi_ge_zero by (intro cos_ge_zero) (simp_all add: radians_exact)
  have "(sin y)\<^sup>2 \<le> a"
    unfolding a_def hav_def half using c1 c2 by simp
  then have "(1 / 23)\<^sup>2 \<le> a"
    using sq by (simp add: power2_eq_square)
  then have "1 / 23 \<le> sqrt a"
    by (rule real_le_rsqrt)
  also have "\<dots> \<le> arcsin (sqrt a)"
    using a01 by (intro arcsin_ge_self) simp_all
  finally have "100 < 6371 * (2 * arcsin (sqrt a))"
    by simp
  then show ?thesis
    by (simp add: haversine_km_exact a_def)
qed

text \<open>Two points of Atlanta about 6 km apart, in the exact arithmetic: at most 100 km.\<close>

lemma haversine_km_within_atlanta:
  "\<exists>d. haversine_km exact_arith 33.749 (- 84.388) 33.8 (- 84.4) = Inr d \<and> d \<le> 100"
proof -
  define a where
    "a = hav (radians exact_arith 33.749) (radians exact_arith (- 84.388)) (radians exact_arith 33.8) (radians exact_arith (- 84.4))"
  define u :: real where "u = (radians exact_arith 33.8 - radians exact_arith 33.749) / 2"
  define v :: real where "v = (radians exact_arith (- 84.4) - radians exact_arith (- 84.388)) / 2"
  define z :: real where "z = 50 / 6371"
  have a01: "0 \<le> a" "a \<le> 1"
    using hav_range unfolding a_def by blast+
  have c: "cos (radians exact_arith 33.749) * cos (radians exact_arith 33.8) \<le> 1"
    using abs_cos_le_one [of "radians exact_arith 33.749"] abs_cos_le_one [of "radians exact_arith 33.8"]
    by (metis abs_le_iff abs_mult mult_le_one abs_ge_zero)
  have "a = (sin u)\<^sup>2 + cos (radians exact_arith 33.749) * cos (radians exact_arith 33.8) * (sin v)\<^sup>2"
    by (simp add: a_def hav_def u_def v_def)
  also have "\<dots> \<le> (sin u)\<^sup>2 + 1 * (sin v)\<^sup>2"
    using c by (intro add_left_mono mult_right_mono) simp_all
  also have "\<dots> \<le> u\<^sup>2 + v\<^sup>2"
    using abs_sin_x_le_abs_x [of u] abs_sin_x_le_abs_x [of v]
    by (simp add: add_mono abs_le_square_iff)
  finally have a_uv: "a \<le> u\<^sup>2 + v\<^sup>2" .
  have ub: "\<bar>u\<bar> \<le> 6 / 10000"
    using pi_less_4 pi_ge_zero by (simp add: u_def radians_exact abs_if)
  have vb: "\<bar>v\<bar> \<le> 2 / 10000"
    using pi_less_4 pi_ge_zero by (simp add: v_def radians_exact abs_if)
  have "u\<^sup>2 \<le> (6 / 10000)\<^sup>2" "v\<^sup>2 \<le> (2 / 10000)\<^sup>2"
    using ub vb by (simp_all add: abs_le_square_iff [symmetric])
  then have "a \<le> (1 / 1000)\<^sup>2"
    using a_uv by (simp add: power2_eq_square)
  then have sa: "sqrt a \<le> 1 / 1000"
    by (intro real_le_lsqrt) simp_all
  have "7 / (10 * 2 ^ 7) \<le> sin z"
    using pi_ge_three pi_less_4 by (intro sin_lower_bound) (simp_all add: z_def)
  then have sz: "sqrt a \<le> sin z"
    using sa by simp
  have z_rng: "- (pi / 2) \<le> z" "z \<le> pi / 2"
    using pi_ge_three by (simp_all add: z_def)
  have s0: "0 \<le> sqrt a"
    using a01 by simp
  have "arcsin (sqrt a) \<le> arcsin (sin z)"
  proof (rule arcsin_le_arcsin)
    show "- 1 \<le> sqrt a" using s0 by linarith
    show "sqrt a \<le> sin z" by (rule sz)
    show "sin z \<le> 1" by simp
  qed
  also have "\<dots> = z"
    using z_rng by (rule arcsin_sin)
  finally have "6371 * (2 * arcsin (sqrt a)) \<le> 100"
    by (simp add: z_def)
  then show ?thesis
    by (simp add: haversine_km_exact a_def)
qed

text \<open>Half the globe along the equator.\<close>

lemma haversine_km_antipodal: "haversine_km exact_arith 0 90 0 (- 90) = Inr (6371 * pi)"
proof -
  have "hav (radians exact_arith 0) (radians exact_arith 90) (radians exact_arith 0) (radians exact_arith (- 90)) = 1"
    by (simp add: hav_def radians_exact)
  then show ?thesis
    by (simp add: haversine_km_exact)
qed


section \<open>The run\<close>

lemma wait_example: "wait_for_birdnet_go (birdnet_go_probe (example_env h cb ar)) 30"
proof -
  have "(2::nat) \<in> set [0 ..< 30]" by simp
  then show ?thesis
    unfolding wait_for_birdnet_go_def example_env_def list_ex_iff
    by (intro bexI [of _ 2]) simp_all
qed

lemma load_example: "load (faults (example_env h cb ar)) (example_disk doc) = Some doc"
  by (simp add: load_def example_env_def example_disk_def no_faults_def)

lemma detect_example:
  "fst (detect_location (detector (example_env h cb ar))) =
     (case try_ip_geolocation no_float h of Inl e \<Rightarrow> Inl e | Inr r \<Rightarrow> Inr r)"
  by (simp add: detect_location_def example_env_def split: sum.splits option.splits)

text \<open>
  C6.  When detection returns None: with no valid persisted coordinate the run ends with
  exit code 1; with a valid persisted coordinate the run goes on with that coordinate as
  the resolved one, which is the unchanged branch (the disk is left as it is and the exit
  code is that of the cache check).
\<close>

theorem main_detection_none:
  assumes "wait_for_birdnet_go (birdnet_go_probe ev) 30"
    and "load (faults ev) d = Some cfg"
    and "fst (detect_location (detector ev)) = Inr None"
  shows "(get_location cfg = Inr None \<longrightarrow> main ev d = (1, d, []))
       \<and> (get_location cfg = Inr (Some (lat, lon)) \<longrightarrow>
            main ev d = update_if_changed ev cfg (Some (lat, lon)) lat lon d
          \<and> main ev d = (fst (unchanged_branch (cache_builder ev)), d,
                          snd (unchanged_branch (cache_builder ev))))"
proof (intro conjI impI)
  assume "get_location cfg = Inr None"
  with assms show "main ev d = (1, d, [])"
    by (simp add: main_def)
next
  assume cur: "get_location cfg = Inr (Some (lat, lon))"
  with assms show m: "main ev d = update_if_changed ev cfg (Some (lat, lon)) lat lon d"
    by (simp add: main_def)
  show "main ev d = (fst (unchanged_branch (cache_builder ev)), d,
                     snd (unchanged_branch (cache_builder ev)))"
    unfolding m
    by (simp add: update_if_changed_def location_changed_same [OF cur] split: prod.splits)
qed

theorem main_detection_none_witness:
  "main (example_env http_down (cb_codes 2 0 0) exact_arith) (example_disk example_config_unset)
     = (1, example_disk example_config_unset, [])
   \<and> main (example_env http_down (cb_codes 2 0 0) exact_arith) (example_disk (example_config 33.749 (- 84.388)))
     = (2, example_disk (example_config 33.749 (- 84.388)), [[''--check-only'']])"
proof -
  have v: "validate_coordinates 33.749 (- 84.388)"
    by (simp add: validate_coordinates_def)
  have det: "fst (detect_location (detector (example_env http_down (cb_codes 2 0 0) exact_arith))) = Inr None"
    by (simp add: detect_example try_ip_geolocation_down)
  have u: "unchanged_branch (cache_builder (example_env http_down (cb_codes 2 0 0) exact_arith))
      = (2, [[''--check-only'']])"
    by (simp add: unchanged_branch_def example_env_def cb_codes_def)
  have "main (example_env http_down (cb_codes 2 0 0) exact_arith) (example_disk example_config_unset)
      = (1, example_disk example_config_unset, [])"
    using main_detection_none [OF wait_example
        load_example [where doc = example_config_unset] det, where lat = 0 and lon = 0]
      get_location_unset
    by blast
  moreover have "main (example_env http_down (cb_codes 2 0 0) exact_arith)
        (example_disk (example_config 33.749 (- 84.388)))
      = (fst (unchanged_branch (cache_builder (example_env http_down (cb_codes 2 0 0) exact_arith))),
         example_disk (example_config 33.749 (- 84.388)),
         snd (unchanged_branch (cache_builder (example_env http_down (cb_codes 2 0 0) exact_arith))))"
    using main_detection_none [OF wait_example
        load_example [where doc = "example_config 33.749 (- 84.388)"] det,
        where lat = "33.749" and lon = "- 84.388"]
      get_location_example [OF v]
    by blast
  ultimately show ?thesis
    by (simp add: u)
qed

text \<open>
  C7.  On the unchanged branch the cache builder is first called with
  \<^verbatim>\<open>--check-only\<close>; it is called once more, with \<^verbatim>\<open>--incremental\<close>, exactly when
  the first call returned 1.  The run's exit code is 1 when the retry returned 1, 2 when
  the last call returned 2 and 0 when it returned 0; the disk is left as it is.
\<close>

theorem main_unchanged_exit_codes:
  assumes "wait_for_birdnet_go (birdnet_go_probe ev) 30"
    and "load (faults ev) d = Some cfg"
    and "get_location cfg = Inr (Some cur)"
    and "fst (detect_location (detector ev)) = Inr (Some l)"
    and "location_changed (float_arith ev) cfg (latitude l) (longitude l)
          LOCATION_CHANGE_THRESHOLD_KM = Inr False"
  shows "\<exists>code calls. main ev d = (code, d, calls)
       \<and> (cache_builder ev [''--check-only''] \<noteq> 1 \<longrightarrow> calls = [[''--check-only'']])
       \<and> (cache_builder ev [''--check-only''] = 1 \<longrightarrow>
            calls = [[''--check-only''], [''--incremental'']])
       \<and> (cache_builder ev [''--check-only''] = 1 \<and> cache_builder ev [''--incremental''] = 1 \<longrightarrow>
            code = 1)
       \<and> (cache_builder ev [''--check-only''] = 1 \<and> cache_builder ev [''--incremental''] = 2 \<longrightarrow>
            code = 2)
       \<and> (cache_builder ev [''--check-only''] = 1 \<and> cache_builder ev [''--incremental''] = 0 \<longrightarrow>
            code = 0)
       \<and> (cache_builder ev [''--check-only''] = 2 \<longrightarrow> code = 2)
       \<and> (cache_builder ev [''--check-only''] = 0 \<longrightarrow> code = 0)"
  using assms
  by (simp add: main_def update_if_changed_def unchanged_branch_def Let_def)


lemma detect_example_ipapi:
  "validate_coordinates lat lon \<Longrightarrow>
   fst (detect_location (detector (example_env (http_ipapi lat lon) cb ar))) =
     Inr (Some \<lparr>latitude = lat, longitude = lon, detection_method = ''ipapi.co'',
                accuracy = ''city-level (~10-50km)''\<rparr>)"
  by (simp add: detect_example try_ip_geolocation_ipapi)

lemma cache_builder_example: "cache_builder (example_env h cb ar) = cb"
  by (simp add: example_env_def)

lemma float_arith_example: "float_arith (example_env h cb ar) = ar"
  by (simp add: example_env_def)

theorem main_unchanged_exit_codes_witness:
  "main (example_env (http_ipapi 33.749 (- 84.388)) (cb_codes 2 0 0) exact_arith)
        (example_disk (example_config 33.749 (- 84.388)))
     = (2, example_disk (example_config 33.749 (- 84.388)), [[''--check-only'']])
   \<and> main (example_env (http_ipapi 33.749 (- 84.388)) (cb_codes 0 0 0) exact_arith)
        (example_disk (example_config 33.749 (- 84.388)))
     = (0, example_disk (example_config 33.749 (- 84.388)), [[''--check-only'']])
   \<and> main (example_env (http_ipapi 33.749 (- 84.388)) (cb_codes 1 0 0) exact_arith)
        (example_disk (example_config 33.749 (- 84.388)))
     = (0, example_disk (example_config 33.749 (- 84.388)),
        [[''--check-only''], [''--incremental'']])
   \<and> main (example_env (http_ipapi 33.749 (- 84.388)) (cb_codes 1 2 0) exact_arith)
        (example_disk (example_config 33.749 (- 84.388)))
     = (2, example_disk (example_config 33.749 (- 84.388)),
        [[''--check-only''], [''--incremental'']])
   \<and> main (example_env (http_ipapi 33.749 (- 84.388)) (cb_codes 1 1 0) exact_arith)
        (example_disk (example_config 33.749 (- 84.388)))
     = (1, example_disk (example_config 33.749 (- 84.388)),
        [[''--check-only''], [''--incremental'']])
   \<and> main (example_env (http_ipapi 33.8 (- 84.4)) (cb_codes 2 0 0) exact_arith)
        (example_disk (example_config 33.749 (- 84.388)))
     = (2, example_disk (example_config 33.749 (- 84.388)), [[''--check-only'']])"
proof -
  have v: "validate_coordinates 33.749 (- 84.388)"
    by (simp add: validate_coordinates_def)
  note g = get_location_example [OF v]
  have same: "location_changed (float_arith (example_env h cb exact_arith))
      (example_config 33.749 (- 84.388))
      (latitude \<lparr>latitude = 33.749, longitude = - 84.388, detection_method = ''ipapi.co'',
                 accuracy = ''city-level (~10-50km)''\<rparr>)
      (longitude \<lparr>latitude = 33.749, longitude = - 84.388, detection_method = ''ipapi.co'',
                 accuracy = ''city-level (~10-50km)''\<rparr>)
      LOCATION_CHANGE_THRESHOLD_KM = Inr False" for h cb
    using location_changed_same [OF g] by (simp add: float_arith_example)
  have run: "\<exists>code calls.
      main (example_env (http_ipapi 33.749 (- 84.388)) (cb_codes c i 0) exact_arith)
           (example_disk (example_config 33.749 (- 84.388)))
        = (code, example_disk (example_config 33.749 (- 84.388)), calls)
      \<and> (c \<noteq> 1 \<longrightarrow> calls = [[''--check-only'']])
      \<and> (c = 1 \<longrightarrow> calls = [[''--check-only''], [''--incremental'']])
      \<and> (c = 1 \<and> i = 1 \<longrightarrow> code = 1)
      \<and> (c = 1 \<and> i = 2 \<longrightarrow> code = 2)
      \<and> (c = 1 \<and> i = 0 \<longrightarrow> code = 0)
      \<and> (c = 2 \<longrightarrow> code = 2)
      \<and> (c = 0 \<longrightarrow> code = 0)" for c i
    using main_unchanged_exit_codes [OF wait_example load_example g
        detect_example_ipapi [OF v] same, of "cb_codes c i 0"]
    by (simp add: cache_builder_example cb_codes_def)
  have v': "validate_coordinates 33.8 (- 84.4)"
    by (simp add: validate_coordinates_def)
  obtain dist where dist: "haversine_km exact_arith 33.749 (- 84.388) 33.8 (- 84.4) = Inr dist" "dist \<le> 100"
    using haversine_km_within_atlanta by blast
  have near: "location_changed (float_arith (example_env h cb exact_arith))
      (example_config 33.749 (- 84.388))
      (latitude \<lparr>latitude = 33.8, longitude = - 84.4, detection_method = ''ipapi.co'',
                 accuracy = ''city-level (~10-50km)''\<rparr>)
      (longitude \<lparr>latitude = 33.8, longitude = - 84.4, detection_method = ''ipapi.co'',
                 accuracy = ''city-level (~10-50km)''\<rparr>)
      LOCATION_CHANGE_THRESHOLD_KM = Inr False" for h cb
    using location_changed_some [OF g dist(1), where thr = LOCATION_CHANGE_THRESHOLD_KM] dist(2)
    by (simp add: LOCATION_CHANGE_THRESHOLD_KM_def float_arith_example)
  have moved: "main (example_env (http_ipapi 33.8 (- 84.4)) (cb_codes 2 0 0) exact_arith)
        (example_disk (example_config 33.749 (- 84.388)))
     = (2, example_disk (example_config 33.749 (- 84.388)), [[''--check-only'']])"
    using main_unchanged_exit_codes [OF wait_example load_example g
        detect_example_ipapi [OF v'] near, of "cb_codes 2 0 0"]
    by (auto simp: cache_builder_example cb_codes_def)
  show ?thesis
    using run [of 2 0] run [of 0 0] run [of 1 0] run [of 1 2] run [of 1 1] moved
    by auto
qed

text \<open>
  C1.  The changed-location branch does not complete.  In every run in which a valid
  persisted coordinate exists and the resolved location is farther from it than the
  threshold, \<^verbatim>\<open>main\<close> calls \<^verbatim>\<open>get_location_distance\<close>, which
  \<^verbatim>\<open>BirdNETConfigManager\<close> does not define; the AttributeError is caught and the run
  ends with exit code 1, the disk untouched and the cache builder never called.
\<close>

theorem main_changed_location_exit_1:
  assumes "wait_for_birdnet_go (birdnet_go_probe ev) 30"
    and "load (faults ev) d = Some cfg"
    and "get_location cfg = Inr (Some cur)"
    and "fst (detect_location (detector ev)) = Inr (Some l)"
    and "location_changed (float_arith ev) cfg (latitude l) (longitude l)
          LOCATION_CHANGE_THRESHOLD_KM = Inr True"
  shows "main ev d = (1, d, [])"
  using assms
  by (simp add: main_def update_if_changed_def get_location_distance_def)


theorem main_changed_location_exit_1_witness:
  "main (example_env (http_ipapi 0 (- 90)) (cb_codes 0 0 0) exact_arith) (example_disk (example_config 0 90))
     = (1, example_disk (example_config 0 90), [])
   \<and> main (example_env (http_ipapi 33.749 (- 84.388)) (cb_codes 0 0 0) exact_arith)
        (example_disk (example_config 40.7128 (- 74.006)))
     = (1, example_disk (example_config 40.7128 (- 74.006)), [])"
proof -
  have v: "validate_coordinates 0 90" "validate_coordinates 0 (- 90)"
    by (simp_all add: validate_coordinates_def)
  note g = get_location_example [OF v(1)]
  have "location_changed exact_arith (example_config 0 90) 0 (- 90) LOCATION_CHANGE_THRESHOLD_KM = Inr True"
    using location_changed_some [OF g haversine_km_antipodal,
        where thr = LOCATION_CHANGE_THRESHOLD_KM]
      pi_ge_two
    by (simp add: LOCATION_CHANGE_THRESHOLD_KM_def)
  then have far: "location_changed (float_arith (example_env h cb exact_arith))
      (example_config 0 90)
      (latitude \<lparr>latitude = 0, longitude = - 90, detection_method = ''ipapi.co'',
                 accuracy = ''city-level (~10-50km)''\<rparr>)
      (longitude \<lparr>latitude = 0, longitude = - 90, detection_method = ''ipapi.co'',
                 accuracy = ''city-level (~10-50km)''\<rparr>)
      LOCATION_CHANGE_THRESHOLD_KM = Inr True" for h cb
    by (simp add: float_arith_example)
  have w: "validate_coordinates 40.7128 (- 74.006)" "validate_coordinates 33.749 (- 84.388)"
    by (simp_all add: validate_coordinates_def)
  note g' = get_location_example [OF w(1)]
  obtain dist where dist: "haversine_km exact_arith 40.7128 (- 74.006) 33.749 (- 84.388) = Inr dist"
      "100 < dist"
    using haversine_km_new_york_atlanta by blast
  have far': "location_changed (float_arith (example_env h cb exact_arith))
      (example_config 40.7128 (- 74.006))
      (latitude \<lparr>latitude = 33.749, longitude = - 84.388, detection_method = ''ipapi.co'',
                 accuracy = ''city-level (~10-50km)''\<rparr>)
      (longitude \<lparr>latitude = 33.749, longitude = - 84.388, detection_method = ''ipapi.co'',
                 accuracy = ''city-level (~10-50km)''\<rparr>)
      LOCATION_CHANGE_THRESHOLD_KM = Inr True" for h cb
    using location_changed_some [OF g' dist(1), where thr = LOCATION_CHANGE_THRESHOLD_KM] dist(2)
    by (simp add: LOCATION_CHANGE_THRESHOLD_KM_def float_arith_example)
  show ?thesis
    using main_changed_location_exit_1 [OF wait_example load_example g
          detect_example_ipapi [OF v(2)] far]
      main_changed_location_exit_1 [OF wait_example load_example g'
          detect_example_ipapi [OF w(2)] far']
    by blast
qed

section \<open>Writing the location\<close>

lemma other_than_update:
  "k \<in> ks \<Longrightarrow> other_than ks (AList.update k v al) = other_than ks al"
  by (induction al) (auto simp: other_than_def)

lemma set_location_cases:
  "(fst (set_location cfg lat lon) \<noteq> Inr True \<and> snd (set_location cfg lat lon) = cfg)
   \<or> (\<exists>rt kvs s sec. doc_root cfg = YRef rt \<and> obj_at (objects cfg) rt = Some (YDict kvs)
         \<and> map_of kvs ''birdnet'' = Some (YRef s) \<and> obj_at (objects cfg) s = Some (YDict sec)
         \<and> set_location cfg lat lon =
             (Inr True,
              cfg\<lparr>objects := (objects cfg)
                [s := YDict (AList.update ''longitude'' (YFloat lon)
                          (AList.update ''latitude'' (YFloat lat) sec))]\<rparr>))
   \<or> (\<exists>rt kvs. doc_root cfg = YRef rt \<and> obj_at (objects cfg) rt = Some (YDict kvs)
         \<and> map_of kvs ''birdnet'' = None
         \<and> set_location cfg lat lon =
             (Inr True,
              cfg\<lparr>objects := (objects cfg)
                  [rt := YDict (kvs @ [(''birdnet'', YRef (length (objects cfg)))])]
                @ [YDict [(''latitude'', YFloat lat), (''longitude'', YFloat lon)]]\<rparr>))"
  by (auto simp: set_location_def split: yval.splits option.splits yobj.splits)


lemma set_location_frame:
  assumes "fst (set_location cfg lat lon) = Inr True"
  shows "\<exists>rt s. doc_root cfg = YRef rt \<and> doc_root (snd (set_location cfg lat lon)) = YRef rt
       \<and> map_of (entries_at (objects (snd (set_location cfg lat lon))) rt) ''birdnet'' = Some (YRef s)
       \<and> length (objects cfg) \<le> length (objects (snd (set_location cfg lat lon)))
       \<and> (\<forall>a. a < length (objects cfg) \<and> a \<noteq> s \<and> a \<noteq> rt \<longrightarrow>
             objects (snd (set_location cfg lat lon)) ! a = objects cfg ! a)
       \<and> (s < length (objects cfg) \<and> rt \<noteq> s \<longrightarrow>
             objects (snd (set_location cfg lat lon)) ! rt = objects cfg ! rt)
       \<and> (rt \<noteq> s \<longrightarrow>
             other_than {''birdnet''} (entries_at (objects (snd (set_location cfg lat lon))) rt)
               = other_than {''birdnet''} (entries_at (objects cfg) rt))
       \<and> other_than {''latitude'', ''longitude''}
             (entries_at (objects (snd (set_location cfg lat lon))) s)
           = other_than {''latitude'', ''longitude''} (entries_at (objects cfg) s)
       \<and> map_of (entries_at (objects (snd (set_location cfg lat lon))) s) ''latitude''
           = Some (YFloat lat)
       \<and> map_of (entries_at (objects (snd (set_location cfg lat lon))) s) ''longitude''
           = Some (YFloat lon)"
proof -
  consider
    (present) rt kvs s sec where "doc_root cfg = YRef rt"
      "obj_at (objects cfg) rt = Some (YDict kvs)" "map_of kvs ''birdnet'' = Some (YRef s)"
      "obj_at (objects cfg) s = Some (YDict sec)"
      "set_location cfg lat lon =
         (Inr True,
          cfg\<lparr>objects := (objects cfg)
            [s := YDict (AList.update ''longitude'' (YFloat lon)
                      (AList.update ''latitude'' (YFloat lat) sec))]\<rparr>)"
  | (created) rt kvs where "doc_root cfg = YRef rt"
      "obj_at (objects cfg) rt = Some (YDict kvs)" "map_of kvs ''birdnet'' = None"
      "set_location cfg lat lon =
         (Inr True,
          cfg\<lparr>objects := (objects cfg)
              [rt := YDict (kvs @ [(''birdnet'', YRef (length (objects cfg)))])]
            @ [YDict [(''latitude'', YFloat lat), (''longitude'', YFloat lon)]]\<rparr>)"
    using set_location_cases [of cfg lat lon] assms by blast
  then show ?thesis
  proof cases
    case present
    have lt: "rt < length (objects cfg)" "s < length (objects cfg)"
      using present(2,4) by (auto simp: obj_at_def split: if_splits)
    have at: "objects cfg ! rt = YDict kvs" "objects cfg ! s = YDict sec"
      using present(2,4) by (auto simp: obj_at_def split: if_splits)
    show ?thesis
      apply (rule exI [of _ rt], rule exI [of _ s])
      using present lt at
      by (auto simp: entries_at_def obj_at_def other_than_update update_conv nth_list_update)
  next
    case created
    have lt: "rt < length (objects cfg)"
      using created(2) by (auto simp: obj_at_def split: if_splits)
    have at: "objects cfg ! rt = YDict kvs"
      using created(2) by (auto simp: obj_at_def split: if_splits)
    show ?thesis
      apply (rule exI [of _ rt], rule exI [of _ "length (objects cfg)"])
      using created lt at
      by (auto simp: entries_at_def obj_at_def other_than_def nth_append nth_list_update
          map_add_def)
  qed
qed












section \<open>Writing, then reading the location\<close>

text \<open>On a document whose top-level value is a dict and whose \<^verbatim>\<open>birdnet\<close> entry is
  absent or a dict, \<^verbatim>\<open>set_location\<close> with an in-range pair returns true, and
  \<^verbatim>\<open>get_location\<close> then returns that pair, or None for the pair (0, 0).\<close>

lemma get_location_stored:
  assumes "dict_of (objects cfg) (doc_root cfg) = Some kvs"
    and "map_of kvs ''birdnet'' = Some v"
    and "dict_of (objects cfg) v = Some sec"
    and "map_of sec ''latitude'' = Some (YFloat lat)"
    and "map_of sec ''longitude'' = Some (YFloat lon)"
  shows "get_location cfg =
     Inr (if (lat = 0 \<and> lon = 0) \<or> \<not> (- 90 \<le> lat \<and> lat \<le> 90 \<and> - 180 \<le> lon \<and> lon \<le> 180)
          then None else Some (lat, lon))"
proof -
  have "doc_root cfg \<noteq> YNone"
    using assms(1) by (auto simp: dict_of_def)
  then show ?thesis
    using assms by (simp add: get_location_def)
qed

lemma set_location_then_get_location:
  assumes "fst (set_location cfg lat lon) = Inr True"
  shows "get_location (snd (set_location cfg lat lon))
           = Inr (if lat = 0 \<and> lon = 0 then None else Some (lat, lon))"
proof -
  have rng: "- 90 \<le> lat \<and> lat \<le> 90 \<and> - 180 \<le> lon \<and> lon \<le> 180"
    using assms by (auto simp: set_location_def split: if_splits)
  let ?cfg' = "snd (set_location cfg lat lon)"
  obtain rt s where f: "doc_root ?cfg' = YRef rt"
      "map_of (entries_at (objects ?cfg') rt) ''birdnet'' = Some (YRef s)"
      "map_of (entries_at (objects ?cfg') s) ''latitude'' = Some (YFloat lat)"
      "map_of (entries_at (objects ?cfg') s) ''longitude'' = Some (YFloat lon)"
    using set_location_frame [OF assms] by blast
  have d: "dict_of (objects ?cfg') (YRef a) = Some (entries_at (objects ?cfg') a)"
    if "map_of (entries_at (objects ?cfg') a) k = Some w" for a k w
    using that by (auto simp: dict_of_def entries_at_def split: option.splits yobj.splits)
  show ?thesis
    using get_location_stored [of ?cfg' "entries_at (objects ?cfg') rt" "YRef s"
        "entries_at (objects ?cfg') s" lat lon]
      d [OF f(2)] d [OF f(3)] f rng
    by simp
qed

text \<open>
  C10.  The round trip holds where \<^verbatim>\<open>set_location\<close> returns true (lemma
  \<open>set_location_then_get_location\<close>), but \<^verbatim>\<open>set_location\<close> does not return true for
  every loaded configuration and in-range pair: on the document of a file with an empty
  \<^verbatim>\<open>birdnet:\<close> key the item assignment raises TypeError, and \<^verbatim>\<open>get_location\<close>
  raises AttributeError, where the docstrings promise a boolean and None.
\<close>

theorem set_location_null_section_raises:
  "set_location example_config_null 45 (- 80) = (Inl TypeError, example_config_null)
   \<and> get_location example_config_null = Inl AttributeError"
  by (simp add: set_location_def get_location_def example_config_null_def dict_of_def obj_at_def)

end
